theory Spec2Isabelle
  imports Complex_Main
begin

section \<open>Data model (lib/types and the state of NeuralNetworkPlayground)\<close>

text \<open>
  The playground is one React component whose state is a handful of \<open>useState\<close> cells.
  Every handler is modelled as a function from the state before the event to the state
  after React has applied the queued updates. JavaScript numbers that only ever hold
  integers here (indices, epoch counters, neuron counts) are \<open>int\<close>; numbers that hold
  coordinates, labels, losses and accuracies are \<open>real\<close>, that is, the arithmetic of the
  source is read over the reals and IEEE rounding is not modelled.
\<close>

datatype LayerType = Input | Hidden | Output

datatype Activation = Relu | Sigmoid | Tanh | Linear

record Layer =
  layer_type :: LayerType
  neurons :: int
  activation :: "Activation option"

record NetworkConfig =
  layers :: "Layer list"

datatype DatasetType = Classification | Regression

record Dataset =
  inputs :: "real list list"
  outputs :: "real list list"
  dataset_type :: DatasetType

record TrainingConfig =
  learningRate :: real
  epochs :: int
  batchSize :: int
  cfg_dataset :: string

record TrainingStats =
  loss :: "real list"
  accuracy :: "real list"

text \<open>
  A prediction row \<open>{ input, actual, predicted }\<close>. \<open>actual\<close> is \<open>None\<close> when the source
  reads \<open>undefined\<close> (element 0 of an empty output vector), and \<open>predicted\<close> is \<open>None\<close>
  when the arithmetic on it yields \<open>NaN\<close>.
\<close>

record PredictionResult =
  input :: "real list"
  actual :: "real option"
  predicted :: "real option"

text \<open>
  \<open>intervals\<close> is the browser's table of live \<open>setInterval\<close> timers created by
  \<open>startTraining\<close>: the handle, and the value of \<open>trainingConfig.epochs\<close> that the
  callback's closure captured. \<open>nextHandle\<close> is the handle the next \<open>setInterval\<close>
  returns.
\<close>

record PlaygroundState =
  networkConfig :: NetworkConfig
  trainingConfig :: TrainingConfig
  isTraining :: bool
  trainingProgress :: int
  trainingStats :: TrainingStats
  predictions :: "PredictionResult list"
  dataset :: Dataset
  intervals :: "(nat \<times> int) list"
  nextHandle :: nat

text \<open>The initial values of the \<open>useState\<close> cells (lines 17-38); no timer exists yet.\<close>

definition initialNetworkConfig :: NetworkConfig where
  "initialNetworkConfig =
     \<lparr>layers =
        [\<lparr>layer_type = Input, neurons = 2, activation = None\<rparr>,
         \<lparr>layer_type = Hidden, neurons = 4, activation = Some Relu\<rparr>,
         \<lparr>layer_type = Output, neurons = 1, activation = Some Sigmoid\<rparr>]\<rparr>"

definition initialTrainingConfig :: TrainingConfig where
  "initialTrainingConfig =
     \<lparr>learningRate = 3 / 100, epochs = 100, batchSize = 32, cfg_dataset = ''xor''\<rparr>"

definition initialState :: PlaygroundState where
  "initialState =
     \<lparr>networkConfig = initialNetworkConfig,
      trainingConfig = initialTrainingConfig,
      isTraining = False,
      trainingProgress = 0,
      trainingStats = \<lparr>loss = [], accuracy = []\<rparr>,
      predictions = [],
      dataset = \<lparr>inputs = [], outputs = [], dataset_type = Classification\<rparr>,
      intervals = [],
      nextHandle = 0\<rparr>"

section \<open>Network topology handlers\<close>

text \<open>
  \<open>Array.prototype.splice(start, deleteCount)\<close> with no inserted items, as the array it
  leaves behind: a negative \<open>start\<close> counts from the end, a \<open>start\<close> past the end is the
  end, and \<open>deleteCount\<close> is cut to what is there.
\<close>

definition splice :: "int \<Rightarrow> int \<Rightarrow> 'a list \<Rightarrow> 'a list" where
  "splice start deleteCount xs =
     (let len = int (length xs);
          actualStart = (if start < 0 then max (len + start) 0 else min start len);
          actualDeleteCount = min (max deleteCount 0) (len - actualStart)
      in take (nat actualStart) xs @ drop (nat (actualStart + actualDeleteCount)) xs)"

text \<open>\<open>handleAddLayer\<close> (lines 106-111): spread the old layers and put the new one last.\<close>

definition handleAddLayer :: "NetworkConfig \<Rightarrow> NetworkConfig" where
  "handleAddLayer networkConfig' =
     networkConfig'\<lparr>layers :=
        layers networkConfig' @ [\<lparr>layer_type = Hidden, neurons = 4, activation = Some Relu\<rparr>]\<rparr>"

text \<open>\<open>handleRemoveLayer\<close> (lines 113-123): the guard on the two end positions, then splice.\<close>

definition handleRemoveLayer :: "int \<Rightarrow> NetworkConfig \<Rightarrow> NetworkConfig" where
  "handleRemoveLayer index networkConfig' =
     (if index = 0 \<or> index = int (length (layers networkConfig')) - 1 then networkConfig'
      else networkConfig'\<lparr>layers := splice index 1 (layers networkConfig')\<rparr>)"

section \<open>Dataset generator\<close>

text \<open>
  \<open>Math.random()\<close> is modelled by the sequence of values it returns: \<open>rnd k\<close> is the
  result of the \<open>k\<close>-th call (counted from 0) made by the handler being run. Its contract,
  a value in \<open>[0, 1)\<close>, is a hypothesis of the theorems that need it.
\<close>

text \<open>
  The \<open>circle\<close> loop (lines 74-82): each pass draws the angle first and the radius
  second, and pushes onto both arrays.
\<close>

function circleLoop ::
  "(nat \<Rightarrow> real) \<Rightarrow> nat \<Rightarrow> real list list \<Rightarrow> real list list \<Rightarrow> real list list \<times> real list list"
where
  "circleLoop rnd i inputs' outputs' =
     (if i < 100 then
        (let angle = rnd (2 * i) * pi * 2;
             radius = rnd (2 * i + 1);
             x = cos angle * radius;
             y = sin angle * radius
         in circleLoop rnd (Suc i) (inputs' @ [[x, y]])
              (outputs' @ [[if radius < 5 / 10 then 1 else 0]]))
      else (inputs', outputs'))"
  by pat_completeness auto
termination
  by (relation "measure (\<lambda>(rnd, i, inputs', outputs'). 100 - i)") auto

text \<open>The \<open>sine\<close> loop (lines 87-91).\<close>

function sineLoop :: "nat \<Rightarrow> real list list \<Rightarrow> real list list \<Rightarrow> real list list \<times> real list list"
where
  "sineLoop i inputs' outputs' =
     (if i < 100 then
        (let x = (real i / 100) * pi * 2
         in sineLoop (Suc i) (inputs' @ [[x]]) (outputs' @ [[sin x]]))
      else (inputs', outputs'))"
  by pat_completeness auto
termination
  by (relation "measure (\<lambda>(i, inputs', outputs'). 100 - i)") auto

text \<open>
  \<open>generateDataset\<close> (lines 56-104): the \<open>switch\<close> on the identifier, each case ending in
  \<open>setDataset\<close>. The \<open>default\<close> case repeats the literals of the \<open>xor\<close> case.
\<close>

definition generateDataset :: "(nat \<Rightarrow> real) \<Rightarrow> string \<Rightarrow> PlaygroundState \<Rightarrow> PlaygroundState" where
  "generateDataset rnd datasetType st =
     (if datasetType = ''xor'' then
        st\<lparr>dataset := \<lparr>inputs = [[0, 0], [0, 1], [1, 0], [1, 1]],
                        outputs = [[0], [1], [1], [0]],
                        dataset_type = Classification\<rparr>\<rparr>
      else if datasetType = ''circle'' then
        (case circleLoop rnd 0 [] [] of
           (inputs', outputs') \<Rightarrow>
             st\<lparr>dataset := \<lparr>inputs = inputs', outputs = outputs', dataset_type = Classification\<rparr>\<rparr>)
      else if datasetType = ''sine'' then
        (case sineLoop 0 [] [] of
           (inputs', outputs') \<Rightarrow>
             st\<lparr>dataset := \<lparr>inputs = inputs', outputs = outputs', dataset_type = Regression\<rparr>\<rparr>)
      else
        st\<lparr>dataset := \<lparr>inputs = [[0, 0], [0, 1], [1, 0], [1, 1]],
                        outputs = [[0], [1], [1], [0]],
                        dataset_type = Classification\<rparr>\<rparr>)"

section \<open>Progress simulator\<close>

text \<open>
  \<open>startTraining\<close> (lines 145-173): three state updates, then \<open>setInterval\<close> registers a
  new timer whose callback closes over the current \<open>trainingConfig.epochs\<close>. Nothing in
  the function looks at, or cancels, a timer that already exists.
\<close>

definition startTraining :: "PlaygroundState \<Rightarrow> PlaygroundState" where
  "startTraining st =
     st\<lparr>isTraining := True,
        trainingProgress := 0,
        trainingStats := \<lparr>loss = [], accuracy = []\<rparr>,
        intervals := intervals st @ [(nextHandle st, epochs (trainingConfig st))],
        nextHandle := Suc (nextHandle st)\<rparr>"

definition clearInterval :: "nat \<Rightarrow> (nat \<times> int) list \<Rightarrow> (nat \<times> int) list" where
  "clearInterval interval timers = filter (\<lambda>t. fst t \<noteq> interval) timers"

text \<open>
  The interval callback (lines 151-172) of the timer \<open>interval\<close> whose closure holds
  \<open>epochs'\<close>. Both updaters are functional, so they read the state current at the tick.
  \<open>rLoss\<close> and \<open>rAcc\<close> are the two \<open>Math.random()\<close> results, in the order the source asks
  for them. (Each updater is taken to run once per tick, as in a production build.)
\<close>

definition intervalCallback :: "nat \<Rightarrow> int \<Rightarrow> real \<Rightarrow> real \<Rightarrow> PlaygroundState \<Rightarrow> PlaygroundState" where
  "intervalCallback interval epochs' rLoss rAcc st =
     (let prev = trainingProgress st;
          newProgress = prev + 1
      in if newProgress \<ge> epochs' then
           st\<lparr>intervals := clearInterval interval (intervals st),
              isTraining := False,
              trainingProgress := epochs'\<rparr>
         else
           st\<lparr>trainingStats :=
                \<lparr>loss = loss (trainingStats st) @
                    [max (1 / 10) (1 - real_of_int newProgress / real_of_int epochs' + rLoss * (1 / 10))],
                 accuracy = accuracy (trainingStats st) @
                    [min (98 / 100) (real_of_int newProgress / real_of_int epochs' + rAcc * (1 / 10))]\<rparr>,
              trainingProgress := newProgress\<rparr>)"

text \<open>
  One firing of timer \<open>interval\<close>: the browser runs the callback of a live timer, and a
  timer that has been cleared never fires.
\<close>

definition fire :: "nat \<Rightarrow> real \<Rightarrow> real \<Rightarrow> PlaygroundState \<Rightarrow> PlaygroundState" where
  "fire interval rLoss rAcc st =
     (case map_of (intervals st) interval of
        None \<Rightarrow> st
      | Some epochs' \<Rightarrow> intervalCallback interval epochs' rLoss rAcc st)"

text \<open>\<open>stopTraining\<close> (lines 175-177) and \<open>resetTraining\<close> (lines 179-183).\<close>

definition stopTraining :: "PlaygroundState \<Rightarrow> PlaygroundState" where
  "stopTraining st = st\<lparr>isTraining := False\<rparr>"

definition resetTraining :: "PlaygroundState \<Rightarrow> PlaygroundState" where
  "resetTraining st =
     st\<lparr>trainingProgress := 0,
        trainingStats := \<lparr>loss = [], accuracy = []\<rparr>,
        predictions := []\<rparr>"

text \<open>
  A run left alone: timer \<open>interval\<close> fires again and again, with no other event in
  between, until it has been cleared. The result is the number of firings and the final
  state; \<open>k\<close> counts the firings so far, and firing \<open>k\<close> takes draws \<open>2k\<close> and \<open>2k + 1\<close>.
\<close>

function runInterval :: "(nat \<Rightarrow> real) \<Rightarrow> nat \<Rightarrow> nat \<Rightarrow> PlaygroundState \<Rightarrow> nat \<times> PlaygroundState" where
  "runInterval rnd interval k st =
     (case map_of (intervals st) interval of
        None \<Rightarrow> (k, st)
      | Some epochs' \<Rightarrow>
          runInterval rnd interval (Suc k)
            (intervalCallback interval epochs' (rnd (2 * k)) (rnd (2 * k + 1)) st))"
  by pat_completeness auto

termination runInterval
proof (relation "measure (\<lambda>(rnd, interval, k, st).
          case map_of (intervals st) interval of None \<Rightarrow> 0
          | Some e \<Rightarrow> Suc (nat (e - trainingProgress st)))")
  show "wf (measure (\<lambda>(rnd, interval, k, st).
          case map_of (intervals st) interval of None \<Rightarrow> 0
          | Some e \<Rightarrow> Suc (nat (e - trainingProgress st))))"
    by simp
next
  fix rnd :: "nat \<Rightarrow> real" and interval k :: nat and st :: PlaygroundState and e :: int
  assume live: "map_of (intervals st) interval = Some e"
  have gone: "map_of (clearInterval interval (intervals st)) interval = None"
    by (auto simp add: clearInterval_def map_of_eq_None_iff)
  show "((rnd, interval, Suc k, intervalCallback interval e (rnd (2 * k)) (rnd (2 * k + 1)) st),
         (rnd, interval, k, st))
        \<in> measure (\<lambda>(rnd, interval, k, st).
          case map_of (intervals st) interval of None \<Rightarrow> 0
          | Some e \<Rightarrow> Suc (nat (e - trainingProgress st)))"
    using live gone by (simp add: intervalCallback_def Let_def)
qed

section \<open>Prediction simulator\<close>

datatype js_error = TypeError

text \<open>
  The callback of \<open>dataset.inputs.map\<close> (lines 187-192) at one index. Reading
  \<open>dataset.outputs[index][0]\<close> throws a \<open>TypeError\<close> when \<open>outputs\<close> has no element at
  \<open>index\<close>, and gives \<open>undefined\<close> when that element is an empty array; \<open>undefined\<close> plus a
  number is \<open>NaN\<close>, which \<open>Math.max\<close> and \<open>Math.min\<close> pass on. \<open>r\<close> is the result of
  \<open>Math.random()\<close>.
\<close>

definition predictRow :: "real list list \<Rightarrow> real \<Rightarrow> real list \<Rightarrow> nat \<Rightarrow> js_error + PredictionResult" where
  "predictRow outputs' r input' index =
     (if index \<ge> length outputs' then Inl TypeError
      else
        (let actual' = (case outputs' ! index of [] \<Rightarrow> None | a # _ \<Rightarrow> Some a);
             predicted' =
               (case actual' of
                  None \<Rightarrow> None
                | Some a \<Rightarrow> Some (min 1 (max 0 (a + (r * (3 / 10) - 15 / 100)))))
         in Inr \<lparr>input = input', actual = actual', predicted = predicted'\<rparr>))"

text \<open>
  \<open>Array.prototype.map\<close> over \<open>dataset.inputs\<close>, from \<open>index\<close> on: rows are produced in
  index order, one \<open>Math.random()\<close> call each, and an exception ends the whole map.
\<close>

fun mapRows ::
  "(nat \<Rightarrow> real) \<Rightarrow> real list list \<Rightarrow> nat \<Rightarrow> real list list \<Rightarrow> js_error + PredictionResult list"
where
  "mapRows rnd outputs' index [] = Inr []"
| "mapRows rnd outputs' index (input' # rest) =
     (case predictRow outputs' (rnd index) input' index of
        Inl e \<Rightarrow> Inl e
      | Inr row \<Rightarrow>
          (case mapRows rnd outputs' (Suc index) rest of
             Inl e \<Rightarrow> Inl e
           | Inr rows \<Rightarrow> Inr (row # rows)))"

text \<open>
  \<open>makePredictions\<close> (lines 185-195): \<open>setPredictions\<close> is reached only when the map has
  returned.
\<close>

definition makePredictions :: "(nat \<Rightarrow> real) \<Rightarrow> PlaygroundState \<Rightarrow> js_error + PlaygroundState" where
  "makePredictions rnd st =
     (case mapRows rnd (outputs (dataset st)) 0 (inputs (dataset st)) of
        Inl e \<Rightarrow> Inl e
      | Inr simulatedPredictions \<Rightarrow> Inr (st\<lparr>predictions := simulatedPredictions\<rparr>))"

text \<open>
  The Run Predictions button (lines 321-323): \<open>disabled={trainingProgress === 0}\<close>, and a
  disabled button does not call its \<open>onClick\<close> handler.
\<close>

definition runPredictionsDisabled :: "PlaygroundState \<Rightarrow> bool" where
  "runPredictionsDisabled st = (trainingProgress st = 0)"

definition clickRunPredictions :: "(nat \<Rightarrow> real) \<Rightarrow> PlaygroundState \<Rightarrow> js_error + PlaygroundState" where
  "clickRunPredictions rnd st =
     (if runPredictionsDisabled st then Inr st else makePredictions rnd st)"

section \<open>Notions of the specification\<close>

text \<open>
  The specification's \<open>clamp(x, lo, hi)\<close> and \<open>uniformRandom(lo, hi)\<close>, the latter as a
  function of the underlying draw \<open>r\<close> from \<open>[0, 1)\<close>. They are written from the
  specification's words and compared with what the source computes.
\<close>

definition clamp_spec :: "real \<Rightarrow> real \<Rightarrow> real \<Rightarrow> real" where
  "clamp_spec x lo hi = (if x < lo then lo else if hi < x then hi else x)"

definition uniformRandom_spec :: "real \<Rightarrow> real \<Rightarrow> real \<Rightarrow> real" where
  "uniformRandom_spec lo hi r = lo + r * (hi - lo)"

text \<open>
  The specification's topology invariant: the first layer is the input layer and the last
  layer is the output layer.
\<close>

definition topology_invariant :: "NetworkConfig \<Rightarrow> bool" where
  "topology_invariant cfg =
     (case layers cfg of
        [] \<Rightarrow> False
      | first # _ \<Rightarrow> layer_type first = Input \<and> layer_type (last (layers cfg)) = Output)"

text \<open>A dataset in which every sample has an output vector with a first component.\<close>

definition samples_wf :: "Dataset \<Rightarrow> bool" where
  "samples_wf ds =
     (length (outputs ds) = length (inputs ds) \<and> list_all (\<lambda>out. out \<noteq> []) (outputs ds))"

text \<open>A source of draws that returns the same value at every call, for concrete runs.\<close>

definition constantDraws :: "real \<Rightarrow> nat \<Rightarrow> real" where
  "constantDraws r k = r"

text \<open>The configuration change \<open>epochs := 10\<close> applied to the initial state.\<close>

definition tenEpochState :: PlaygroundState where
  "tenEpochState = initialState\<lparr>trainingConfig := initialTrainingConfig\<lparr>epochs := 10\<rparr>\<rparr>"

section \<open>Topology: removing a layer\<close>

lemma splice_one_inside:
  assumes "0 < i" and "i < int (length xs)"
  shows "splice i 1 xs = take (nat i) xs @ drop (Suc (nat i)) xs"
proof -
  have "nat (i + 1) = Suc (nat i)"
    using assms(1) by simp
  with assms show ?thesis
    by (simp add: splice_def Let_def min_def max_def)
qed

text \<open>
  Claim C9. At index 0 and at the last index \<open>handleRemoveLayer\<close> returns the
  configuration it was given. At an index strictly between them the new list is the old
  one without position \<open>i\<close>: the layers before \<open>i\<close> followed by the layers after \<open>i\<close>, so it
  is one shorter, position \<open>j < i\<close> holds what it held, and position \<open>j \<ge> i\<close> holds what
  position \<open>j + 1\<close> held.
\<close>

theorem handleRemoveLayer_spec:
  "(i = 0 \<or> i = int (length (layers cfg)) - 1 \<longrightarrow> handleRemoveLayer i cfg = cfg) \<and>
   (0 < i \<and> i < int (length (layers cfg)) - 1 \<longrightarrow>
      layers (handleRemoveLayer i cfg) = take (nat i) (layers cfg) @ drop (Suc (nat i)) (layers cfg) \<and>
      int (length (layers (handleRemoveLayer i cfg))) = int (length (layers cfg)) - 1 \<and>
      (\<forall>j < nat i. layers (handleRemoveLayer i cfg) ! j = layers cfg ! j) \<and>
      (\<forall>j. nat i \<le> j \<and> j < length (layers (handleRemoveLayer i cfg)) \<longrightarrow>
           layers (handleRemoveLayer i cfg) ! j = layers cfg ! Suc j))"
proof (intro conjI impI)
  assume "i = 0 \<or> i = int (length (layers cfg)) - 1"
  then show "handleRemoveLayer i cfg = cfg"
    by (simp add: handleRemoveLayer_def)
next
  define ls where "ls = layers cfg"
  define ls' where "ls' = layers (handleRemoveLayer i cfg)"
  assume inner: "0 < i \<and> i < int (length (layers cfg)) - 1"
  then have shape: "ls' = take (nat i) ls @ drop (Suc (nat i)) ls"
    unfolding ls'_def ls_def
    by (simp add: handleRemoveLayer_def splice_one_inside)
  from inner have len: "nat i < length ls" "Suc (nat i) \<le> length ls"
    unfolding ls_def by linarith+
  have tk: "length (take (nat i) ls) = nat i"
    using len by simp
  show "layers (handleRemoveLayer i cfg) = take (nat i) (layers cfg) @ drop (Suc (nat i)) (layers cfg)"
    using shape by (simp add: ls_def ls'_def)
  show "int (length (layers (handleRemoveLayer i cfg))) = int (length (layers cfg)) - 1"
    using len shape by (simp add: ls_def ls'_def)
  have "\<forall>j < nat i. ls' ! j = ls ! j"
    using len by (simp add: shape nth_append)
  then show "\<forall>j < nat i. layers (handleRemoveLayer i cfg) ! j = layers cfg ! j"
    by (simp add: ls_def ls'_def)
  have "\<forall>j. nat i \<le> j \<and> j < length ls' \<longrightarrow> ls' ! j = ls ! Suc j"
  proof (intro allI impI)
    fix j
    assume j: "nat i \<le> j \<and> j < length ls'"
    from j have "ls' ! j = drop (Suc (nat i)) ls ! (j - nat i)"
      unfolding shape nth_append tk by simp
    also have "\<dots> = ls ! (Suc (nat i) + (j - nat i))"
      using len by (intro nth_drop) simp
    also have "Suc (nat i) + (j - nat i) = Suc j"
      using j by simp
    finally show "ls' ! j = ls ! Suc j" .
  qed
  then show "\<forall>j. nat i \<le> j \<and> j < length (layers (handleRemoveLayer i cfg)) \<longrightarrow>
                 layers (handleRemoveLayer i cfg) ! j = layers cfg ! Suc j"
    by (simp add: ls_def ls'_def)
qed

theorem handleRemoveLayer_spec_witness:
  "handleRemoveLayer 0 initialNetworkConfig = initialNetworkConfig \<and>
   handleRemoveLayer 2 initialNetworkConfig = initialNetworkConfig \<and>
   layers (handleRemoveLayer 1 initialNetworkConfig) =
     [\<lparr>layer_type = Input, neurons = 2, activation = None\<rparr>,
      \<lparr>layer_type = Output, neurons = 1, activation = Some Sigmoid\<rparr>]"
  using handleRemoveLayer_spec [of 0 initialNetworkConfig]
        handleRemoveLayer_spec [of 2 initialNetworkConfig]
        handleRemoveLayer_spec [of 1 initialNetworkConfig]
  by (simp add: initialNetworkConfig_def)

text \<open>
  Claim C3. The initial topology satisfies the invariant, but \<open>handleAddLayer\<close> puts the
  new hidden layer after the output layer, so the last layer is then a hidden one and the
  invariant is lost. The output layer now sits at an inner position, where
  \<open>handleRemoveLayer\<close>, whose guard protects the last position, deletes it.
\<close>

theorem handleAddLayer_breaks_invariant:
  "topology_invariant initialNetworkConfig \<and>
   layers (handleAddLayer initialNetworkConfig) =
     [\<lparr>layer_type = Input, neurons = 2, activation = None\<rparr>,
      \<lparr>layer_type = Hidden, neurons = 4, activation = Some Relu\<rparr>,
      \<lparr>layer_type = Output, neurons = 1, activation = Some Sigmoid\<rparr>,
      \<lparr>layer_type = Hidden, neurons = 4, activation = Some Relu\<rparr>] \<and>
   layer_type (last (layers (handleAddLayer initialNetworkConfig))) = Hidden \<and>
   \<not> topology_invariant (handleAddLayer initialNetworkConfig) \<and>
   layers (handleRemoveLayer 2 (handleAddLayer initialNetworkConfig)) =
     [\<lparr>layer_type = Input, neurons = 2, activation = None\<rparr>,
      \<lparr>layer_type = Hidden, neurons = 4, activation = Some Relu\<rparr>,
      \<lparr>layer_type = Hidden, neurons = 4, activation = Some Relu\<rparr>]"
  by (simp add: topology_invariant_def initialNetworkConfig_def handleAddLayer_def
      handleRemoveLayer_def splice_def)

section \<open>Dataset generator: the three generators and the fallback\<close>

declare circleLoop.simps [simp del]
declare sineLoop.simps [simp del]

lemma circleLoop_unfold:
  "i \<le> 100 \<Longrightarrow>
   circleLoop rnd i ins outs =
     (ins @ map (\<lambda>j. [cos (rnd (2 * j) * pi * 2) * rnd (2 * j + 1),
                       sin (rnd (2 * j) * pi * 2) * rnd (2 * j + 1)]) [i..<100],
      outs @ map (\<lambda>j. [if rnd (2 * j + 1) < 5 / 10 then 1 else 0]) [i..<100])"
proof (induction rnd i ins outs rule: circleLoop.induct)
  case (1 rnd i ins outs)
  show ?case
  proof (cases "i < 100")
    case True
    then have "[i..<100] = i # [Suc i..<100]"
      by (simp add: upt_conv_Cons)
    with True "1.IH" show ?thesis
      by (subst circleLoop.simps) (simp add: Let_def)
  next
    case False
    with "1.prems" have "i = 100" by simp
    then show ?thesis
      by (subst circleLoop.simps) simp
  qed
qed

lemma sineLoop_unfold:
  "i \<le> 100 \<Longrightarrow>
   sineLoop i ins outs =
     (ins @ map (\<lambda>j. [(real j / 100) * pi * 2]) [i..<100],
      outs @ map (\<lambda>j. [sin ((real j / 100) * pi * 2)]) [i..<100])"
proof (induction i ins outs rule: sineLoop.induct)
  case (1 i ins outs)
  show ?case
  proof (cases "i < 100")
    case True
    then have "[i..<100] = i # [Suc i..<100]"
      by (simp add: upt_conv_Cons)
    with True "1.IH" show ?thesis
      by (subst sineLoop.simps) (simp add: Let_def)
  next
    case False
    with "1.prems" have "i = 100" by simp
    then show ?thesis
      by (subst sineLoop.simps) simp
  qed
qed

lemma sine_dataset:
  "dataset (generateDataset rnd ''sine'' st) =
     \<lparr>inputs = map (\<lambda>j. [(real j / 100) * pi * 2]) [0..<100],
      outputs = map (\<lambda>j. [sin ((real j / 100) * pi * 2)]) [0..<100],
      dataset_type = Regression\<rparr>"
  by (simp add: generateDataset_def sineLoop_unfold)

lemma circle_dataset:
  "dataset (generateDataset rnd ''circle'' st) =
     \<lparr>inputs = map (\<lambda>j. [cos (rnd (2 * j) * pi * 2) * rnd (2 * j + 1),
                          sin (rnd (2 * j) * pi * 2) * rnd (2 * j + 1)]) [0..<100],
      outputs = map (\<lambda>j. [if rnd (2 * j + 1) < 5 / 10 then 1 else 0]) [0..<100],
      dataset_type = Classification\<rparr>"
  by (simp add: generateDataset_def circleLoop_unfold)

lemma polar_inside_unit_disk:
  fixes a r :: real
  assumes "0 \<le> r" and "r < 1"
  shows "sqrt ((cos a * r)\<^sup>2 + (sin a * r)\<^sup>2) < 1"
proof -
  have "(cos a * r)\<^sup>2 + (sin a * r)\<^sup>2 = ((cos a)\<^sup>2 + (sin a)\<^sup>2) * r\<^sup>2"
    by (simp only: power_mult_distrib distrib_right)
  also have "\<dots> = r\<^sup>2"
    by simp
  finally have "sqrt ((cos a * r)\<^sup>2 + (sin a * r)\<^sup>2) = \<bar>r\<bar>"
    by simp
  with assms show ?thesis by simp
qed

text \<open>
  Claim C6. For \<open>"xor"\<close> the stored dataset has the four boolean pairs as inputs, in the
  order (0,0), (0,1), (1,0), (1,1), the exclusive or of each pair as its output, and kind
  classification; any identifier other than \<open>"xor"\<close>, \<open>"circle"\<close> and \<open>"sine"\<close> gives the
  same result as \<open>"xor"\<close>.
\<close>

theorem generate_xor:
  "dataset (generateDataset rnd ''xor'' st) =
     \<lparr>inputs = [[0, 0], [0, 1], [1, 0], [1, 1]],
      outputs = [[0], [1], [1], [0]],
      dataset_type = Classification\<rparr> \<and>
   length (inputs (dataset (generateDataset rnd ''xor'' st))) = 4 \<and>
   outputs (dataset (generateDataset rnd ''xor'' st)) =
     map (\<lambda>p. [if (p ! 0 = 1) \<noteq> (p ! 1 = 1) then 1 else 0])
       (inputs (dataset (generateDataset rnd ''xor'' st))) \<and>
   (datasetType \<noteq> ''xor'' \<and> datasetType \<noteq> ''circle'' \<and> datasetType \<noteq> ''sine'' \<longrightarrow>
      generateDataset rnd datasetType st = generateDataset rnd ''xor'' st)"
  by (simp add: generateDataset_def)

theorem generate_xor_witness:
  "''spiral'' \<noteq> ''xor'' \<and> ''spiral'' \<noteq> ''circle'' \<and> ''spiral'' \<noteq> ''sine'' \<and>
   dataset (generateDataset (constantDraws 0) ''spiral'' initialState) =
     \<lparr>inputs = [[0, 0], [0, 1], [1, 0], [1, 1]],
      outputs = [[0], [1], [1], [0]],
      dataset_type = Classification\<rparr>"
  using generate_xor [of "constantDraws 0" initialState "''spiral''"]
  by simp

text \<open>
  Claim C7. Whatever values in \<open>[0, 1)\<close> the 200 draws take, \<open>"circle"\<close> stores 100
  samples of kind classification; sample \<open>i\<close> is the point with angle \<open>2\<pi>\<close> times draw
  \<open>2i\<close>, which lies in \<open>[0, 2\<pi>)\<close>, and radius draw \<open>2i + 1\<close>; its distance from the origin
  is below 1, and its label is 1 when the radius is below one half and 0 otherwise.
\<close>

theorem generate_circle:
  assumes "\<forall>k<200. 0 \<le> rnd k \<and> rnd k < 1"
  shows "length (inputs (dataset (generateDataset rnd ''circle'' st))) = 100 \<and>
         length (outputs (dataset (generateDataset rnd ''circle'' st))) = 100 \<and>
         dataset_type (dataset (generateDataset rnd ''circle'' st)) = Classification \<and>
         (\<forall>i<100.
            inputs (dataset (generateDataset rnd ''circle'' st)) ! i =
              [cos (rnd (2 * i) * pi * 2) * rnd (2 * i + 1),
               sin (rnd (2 * i) * pi * 2) * rnd (2 * i + 1)] \<and>
            0 \<le> rnd (2 * i) * pi * 2 \<and> rnd (2 * i) * pi * 2 < 2 * pi \<and>
            sqrt ((inputs (dataset (generateDataset rnd ''circle'' st)) ! i ! 0)\<^sup>2 +
                  (inputs (dataset (generateDataset rnd ''circle'' st)) ! i ! 1)\<^sup>2) < 1 \<and>
            outputs (dataset (generateDataset rnd ''circle'' st)) ! i =
              [if rnd (2 * i + 1) < 1 / 2 then 1 else 0])"
proof -
  have per_sample:
    "0 \<le> rnd (2 * i) * pi * 2 \<and> rnd (2 * i) * pi * 2 < 2 * pi \<and>
     sqrt ((cos (rnd (2 * i) * pi * 2) * rnd (2 * i + 1))\<^sup>2 +
           (sin (rnd (2 * i) * pi * 2) * rnd (2 * i + 1))\<^sup>2) < 1"
    if i: "i < 100" for i
  proof -
    have a: "0 \<le> rnd (2 * i)" "rnd (2 * i) < 1"
      using assms i by simp_all
    have r: "0 \<le> rnd (2 * i + 1)" "rnd (2 * i + 1) < 1"
      using assms i by simp_all
    have "rnd (2 * i) * pi * 2 < 2 * pi"
      using a(2) pi_gt_zero by simp
    moreover have "0 \<le> rnd (2 * i) * pi * 2"
      using a(1) pi_ge_zero by simp
    moreover have "sqrt ((cos (rnd (2 * i) * pi * 2) * rnd (2 * i + 1))\<^sup>2 +
                         (sin (rnd (2 * i) * pi * 2) * rnd (2 * i + 1))\<^sup>2) < 1"
      using r by (rule polar_inside_unit_disk)
    ultimately show ?thesis
      by simp
  qed
  show ?thesis
    using per_sample by (simp add: circle_dataset)
qed

theorem generate_circle_witness:
  "list_all (\<lambda>k. 0 \<le> constantDraws (1 / 4) k \<and> constantDraws (1 / 4) k < 1) [0..<200] \<and>
   length (inputs (dataset (generateDataset (constantDraws (1 / 4)) ''circle'' initialState))) = 100 \<and>
   inputs (dataset (generateDataset (constantDraws (1 / 4)) ''circle'' initialState)) ! 0 = [0, 1 / 4] \<and>
   outputs (dataset (generateDataset (constantDraws (1 / 4)) ''circle'' initialState)) ! 0 = [1]"
  using generate_circle [of "constantDraws (1 / 4)" initialState]
  by (simp add: constantDraws_def list_all_iff)

text \<open>
  Claim C8. \<open>"sine"\<close> stores 100 samples of kind regression; the input of sample \<open>i\<close> is
  \<open>(i / 100) * 2\<pi>\<close>, a point of \<open>[0, 2\<pi>)\<close>, and its output is the sine of its input.
\<close>

theorem generate_sine:
  "length (inputs (dataset (generateDataset rnd ''sine'' st))) = 100 \<and>
   length (outputs (dataset (generateDataset rnd ''sine'' st))) = 100 \<and>
   dataset_type (dataset (generateDataset rnd ''sine'' st)) = Regression \<and>
   (\<forall>i<100.
      inputs (dataset (generateDataset rnd ''sine'' st)) ! i = [(real i / 100) * (2 * pi)] \<and>
      0 \<le> (real i / 100) * (2 * pi) \<and> (real i / 100) * (2 * pi) < 2 * pi \<and>
      outputs (dataset (generateDataset rnd ''sine'' st)) ! i =
        map sin (inputs (dataset (generateDataset rnd ''sine'' st)) ! i))"
proof -
  have "(real i / 100) * (2 * pi) < 2 * pi" if "i < 100" for i
    using that pi_gt_zero by simp
  then show ?thesis
    by (simp add: sine_dataset)
qed

theorem generate_sine_witness:
  "(25::nat) < 100 \<and>
   inputs (dataset (generateDataset (constantDraws 0) ''sine'' initialState)) ! 25 = [pi / 2] \<and>
   outputs (dataset (generateDataset (constantDraws 0) ''sine'' initialState)) ! 25 = [1]"
  using generate_sine [of "constantDraws 0" initialState]
  by simp

section \<open>Progress simulator: start, tick, stop, reset\<close>

declare runInterval.simps [simp del]

lemma clearInterval_gone: "map_of (clearInterval h ts) h = None"
  by (auto simp add: clearInterval_def map_of_eq_None_iff)

lemma runInterval_dead:
  "map_of (intervals st) h = None \<Longrightarrow> runInterval rnd h k st = (k, st)"
  by (simp add: runInterval.simps)

lemma runInterval_live:
  "map_of (intervals st) h = Some E \<Longrightarrow>
   runInterval rnd h k st =
     runInterval rnd h (Suc k) (intervalCallback h E (rnd (2 * k)) (rnd (2 * k + 1)) st)"
  by (subst runInterval.simps) simp

lemma runInterval_completes:
  assumes "map_of (intervals st) h = Some E" and "trainingProgress st < E"
  shows "\<exists>st'. runInterval rnd h k st = (k + nat (E - trainingProgress st), st') \<and>
           trainingProgress st' = E \<and> \<not> isTraining st' \<and>
           intervals st' = clearInterval h (intervals st) \<and>
           length (loss (trainingStats st')) + 1 =
             length (loss (trainingStats st)) + nat (E - trainingProgress st) \<and>
           length (accuracy (trainingStats st')) + 1 =
             length (accuracy (trainingStats st)) + nat (E - trainingProgress st)"
  using assms
proof (induction "nat (E - trainingProgress st)" arbitrary: st k)
  case 0
  then show ?case by simp
next
  case (Suc n)
  let ?st1 = "intervalCallback h E (rnd (2 * k)) (rnd (2 * k + 1)) st"
  have step: "runInterval rnd h k st = runInterval rnd h (Suc k) ?st1"
    using Suc.prems(1) by (rule runInterval_live)
  show ?case
  proof (cases "trainingProgress st + 1 \<ge> E")
    case True
    then have last: "E - trainingProgress st = 1"
      using Suc.prems(2) by simp
    have dead: "map_of (intervals ?st1) h = None"
      using True by (simp add: intervalCallback_def Let_def clearInterval_gone)
    have "runInterval rnd h k st = (Suc k, ?st1)"
      using step dead by (simp add: runInterval_dead)
    then show ?thesis
      using True last by (simp add: intervalCallback_def Let_def)
  next
    case False
    have live1: "map_of (intervals ?st1) h = Some E"
      using False Suc.prems(1) by (simp add: intervalCallback_def Let_def)
    have prog1: "trainingProgress ?st1 = trainingProgress st + 1"
      using False by (simp add: intervalCallback_def Let_def)
    have n: "n = nat (E - trainingProgress ?st1)"
      using Suc.hyps(2) prog1 by simp
    have lt: "trainingProgress ?st1 < E"
      using False prog1 by simp
    from Suc.hyps(1) [OF n live1 lt, of "Suc k"]
    obtain st' where r: "runInterval rnd h (Suc k) ?st1 = (Suc k + nat (E - trainingProgress ?st1), st')"
      and p: "trainingProgress st' = E" "\<not> isTraining st'"
        "intervals st' = clearInterval h (intervals ?st1)"
        "length (loss (trainingStats st')) + 1 =
           length (loss (trainingStats ?st1)) + nat (E - trainingProgress ?st1)"
        "length (accuracy (trainingStats st')) + 1 =
           length (accuracy (trainingStats ?st1)) + nat (E - trainingProgress ?st1)"
      by blast
    have cnt: "Suc k + nat (E - trainingProgress ?st1) = k + nat (E - trainingProgress st)"
      using prog1 lt by simp
    have same: "intervals ?st1 = intervals st"
      using False by (simp add: intervalCallback_def Let_def)
    have l1: "length (loss (trainingStats ?st1)) = length (loss (trainingStats st)) + 1"
      "length (accuracy (trainingStats ?st1)) = length (accuracy (trainingStats st)) + 1"
      using False by (simp_all add: intervalCallback_def Let_def)
    have e1: "nat (E - trainingProgress st) = nat (E - trainingProgress ?st1) + 1"
      using prog1 lt by simp
    show ?thesis
      using step r p cnt same l1 e1 by simp
  qed
qed

lemma startTraining_fresh:
  assumes "intervals st = []"
  shows "map_of (intervals (startTraining st)) (nextHandle st) = Some (epochs (trainingConfig st))"
  using assms by (simp add: startTraining_def)

lemma ten_start:
  "intervals tenEpochState = [] \<and> epochs (trainingConfig tenEpochState) = 10 \<and>
   nextHandle tenEpochState = 0"
  by (simp add: tenEpochState_def initialState_def)

text \<open>
  Claim C2, as the source has it. A run started with \<open>epochs = E\<close>, \<open>E \<ge> 1\<close>, while no other
  timer is live, and then left alone, ends after exactly \<open>E\<close> firings with
  \<open>trainingProgress = E\<close>, \<open>isTraining\<close> false and its timer cleared. The loss and accuracy
  series each hold \<open>E - 1\<close> values: the firing that reaches \<open>E\<close> returns before the
  append.
\<close>

theorem training_run_to_completion:
  assumes "intervals st = []" and "1 \<le> epochs (trainingConfig st)"
  shows "\<exists>st'. runInterval rnd (nextHandle st) 0 (startTraining st) =
                 (nat (epochs (trainingConfig st)), st') \<and>
           trainingProgress st' = epochs (trainingConfig st) \<and>
           \<not> isTraining st' \<and>
           intervals st' = [] \<and>
           int (length (loss (trainingStats st'))) = epochs (trainingConfig st) - 1 \<and>
           int (length (accuracy (trainingStats st'))) = epochs (trainingConfig st) - 1"
proof -
  let ?E = "epochs (trainingConfig st)"
  let ?s = "startTraining st"
  have live: "map_of (intervals ?s) (nextHandle st) = Some ?E"
    using assms(1) by (rule startTraining_fresh)
  have p0: "trainingProgress ?s = 0" and l0: "loss (trainingStats ?s) = []"
    and a0: "accuracy (trainingStats ?s) = []"
    and iv: "intervals ?s = [(nextHandle st, ?E)]"
    using assms(1) by (simp_all add: startTraining_def)
  have lt: "trainingProgress ?s < ?E"
    using assms(2) p0 by simp
  from runInterval_completes [OF live lt, of rnd 0]
  obtain st' where r: "runInterval rnd (nextHandle st) 0 ?s = (0 + nat (?E - trainingProgress ?s), st')"
    and p: "trainingProgress st' = ?E" "\<not> isTraining st'"
      "intervals st' = clearInterval (nextHandle st) (intervals ?s)"
      "length (loss (trainingStats st')) + 1 =
         length (loss (trainingStats ?s)) + nat (?E - trainingProgress ?s)"
      "length (accuracy (trainingStats st')) + 1 =
         length (accuracy (trainingStats ?s)) + nat (?E - trainingProgress ?s)"
    by blast
  have "intervals st' = []"
    using p(3) iv by (simp add: clearInterval_def)
  moreover have "int (length (loss (trainingStats st'))) = ?E - 1"
    using p(4) l0 p0 assms(2) by simp
  moreover have "int (length (accuracy (trainingStats st'))) = ?E - 1"
    using p(5) a0 p0 assms(2) by simp
  ultimately show ?thesis
    using r p(1,2) p0 by simp
qed

theorem training_run_to_completion_witness:
  "intervals tenEpochState = [] \<and> 1 \<le> epochs (trainingConfig tenEpochState) \<and>
   (\<exists>st'. runInterval (constantDraws 0) 0 0 (startTraining tenEpochState) = (10, st') \<and>
         trainingProgress st' = 10 \<and> \<not> isTraining st' \<and> intervals st' = [] \<and>
         length (loss (trainingStats st')) = 9 \<and> length (accuracy (trainingStats st')) = 9)"
  using training_run_to_completion [of tenEpochState "constantDraws 0"]
  by (simp add: ten_start)

text \<open>
  The claim as written asks for \<open>E\<close> values in each series. With \<open>epochs = 10\<close> the
  completed run holds 9.
\<close>

theorem training_series_length_counterexample:
  "length (loss (trainingStats (snd (runInterval (constantDraws 0) 0 0 (startTraining tenEpochState))))) = 9 \<and>
   length (accuracy (trainingStats (snd (runInterval (constantDraws 0) 0 0 (startTraining tenEpochState))))) = 9 \<and>
   length (loss (trainingStats (snd (runInterval (constantDraws 0) 0 0 (startTraining tenEpochState))))) \<noteq> 10"
proof -
  have live: "map_of (intervals (startTraining tenEpochState)) 0 = Some 10"
    by (simp add: startTraining_def ten_start)
  have lt: "trainingProgress (startTraining tenEpochState) < 10"
    by (simp add: startTraining_def)
  from runInterval_completes [OF live lt, of "constantDraws 0" 0]
  show ?thesis
    by (auto simp add: startTraining_def)
qed

text \<open>
  Claim C1. \<open>stopTraining\<close> and \<open>resetTraining\<close> leave the timer in the table, so it
  fires again: after start, one tick and stop, the next tick moves \<open>trainingProgress\<close>
  from 1 to 2, and after a reset it counts up again from 0. \<open>startTraining\<close> adds a timer
  without clearing the one that is there, so start, stop, start leaves two live timers,
  and one period of both advances the epoch by 2.
\<close>

theorem stop_leaves_timer_live:
  "intervals (stopTraining (startTraining initialState)) = [(0, 100)] \<and>
   trainingProgress (stopTraining (fire 0 r1 r2 (startTraining initialState))) = 1 \<and>
   trainingProgress (fire 0 r3 r4 (stopTraining (fire 0 r1 r2 (startTraining initialState)))) = 2 \<and>
   intervals (resetTraining (startTraining initialState)) = [(0, 100)] \<and>
   trainingProgress (fire 0 r3 r4 (resetTraining (fire 0 r1 r2 (startTraining initialState)))) = 1 \<and>
   intervals (startTraining (stopTraining (startTraining initialState))) = [(0, 100), (1, 100)] \<and>
   trainingProgress
     (fire 1 r3 r4 (fire 0 r1 r2 (startTraining (stopTraining (startTraining initialState))))) = 2"
  by (simp add: fire_def intervalCallback_def startTraining_def stopTraining_def
      resetTraining_def initialState_def initialTrainingConfig_def Let_def)

text \<open>
  Claim C4. \<open>resetTraining\<close> sets \<open>trainingProgress\<close> to 0 and empties both series and
  the predictions, but it neither sets \<open>isTraining\<close> nor clears the timer. After start,
  one tick and reset, the run is still running with timer 0 live, so it is not idle, and
  the next tick undoes the reset: \<open>trainingProgress\<close> is 1 again and the loss series
  holds a value.
\<close>

theorem resetTraining_leaves_run_live:
  "trainingProgress (fire 0 0 0 (startTraining initialState)) = 1 \<and>
   trainingProgress (resetTraining (fire 0 0 0 (startTraining initialState))) = 0 \<and>
   trainingStats (resetTraining (fire 0 0 0 (startTraining initialState))) =
     \<lparr>loss = [], accuracy = []\<rparr> \<and>
   predictions (resetTraining (fire 0 0 0 (startTraining initialState))) = [] \<and>
   isTraining (resetTraining (fire 0 0 0 (startTraining initialState))) \<and>
   intervals (resetTraining (fire 0 0 0 (startTraining initialState))) = [(0, 100)] \<and>
   trainingProgress (fire 0 0 0 (resetTraining (fire 0 0 0 (startTraining initialState)))) = 1 \<and>
   trainingStats (fire 0 0 0 (resetTraining (fire 0 0 0 (startTraining initialState)))) =
     \<lparr>loss = [99 / 100], accuracy = [1 / 100]\<rparr>"
  by (simp add: fire_def intervalCallback_def startTraining_def resetTraining_def
      initialState_def initialTrainingConfig_def Let_def)

section \<open>Prediction simulator\<close>

lemma predictRow_ok:
  assumes "index < length outs" and "outs ! index \<noteq> []"
  shows "predictRow outs r inp index =
           Inr \<lparr>input = inp, actual = Some (hd (outs ! index)),
                predicted = Some (min 1 (max 0 (hd (outs ! index) + (r * (3 / 10) - 15 / 100))))\<rparr>"
proof -
  from assms(2) obtain a rest where "outs ! index = a # rest"
    by (cases "outs ! index") simp_all
  with assms(1) show ?thesis
    by (simp add: predictRow_def)
qed

lemma mapRows_ok:
  assumes "index + length ins \<le> length outs"
    and "\<forall>j<length ins. outs ! (index + j) \<noteq> []"
  shows "mapRows rnd outs index ins =
           Inr (map (\<lambda>j. \<lparr>input = ins ! j, actual = Some (hd (outs ! (index + j))),
                          predicted = Some (min 1 (max 0 (hd (outs ! (index + j)) +
                                         (rnd (index + j) * (3 / 10) - 15 / 100))))\<rparr>)
                  [0..<length ins])"
  using assms
proof (induction ins arbitrary: index)
  case Nil
  show ?case by simp
next
  case (Cons inp rest)
  have here: "index < length outs" "outs ! index \<noteq> []"
    using Cons.prems by auto
  have bound: "Suc index + length rest \<le> length outs"
    using Cons.prems(1) by simp
  have nonempty: "\<forall>j<length rest. outs ! (Suc index + j) \<noteq> []"
  proof (intro allI impI)
    fix j assume "j < length rest"
    then have "Suc j < length (inp # rest)" by simp
    with Cons.prems(2) have "outs ! (index + Suc j) \<noteq> []" by blast
    then show "outs ! (Suc index + j) \<noteq> []" by simp
  qed
  show ?case
    by (simp add: predictRow_ok [OF here] Cons.IH [OF bound nonempty] map_upt_Suc del: upt_Suc)
qed

lemma makePredictions_ok:
  assumes "samples_wf (dataset st)"
  shows "makePredictions rnd st =
           Inr (st\<lparr>predictions :=
                  map (\<lambda>j. \<lparr>input = inputs (dataset st) ! j,
                            actual = Some (hd (outputs (dataset st) ! j)),
                            predicted = Some (min 1 (max 0 (hd (outputs (dataset st) ! j) +
                                           (rnd j * (3 / 10) - 15 / 100))))\<rparr>)
                    [0..<length (inputs (dataset st))]\<rparr>)"
proof -
  have "0 + length (inputs (dataset st)) \<le> length (outputs (dataset st))"
    using assms by (simp add: samples_wf_def)
  moreover have "\<forall>j<length (inputs (dataset st)). outputs (dataset st) ! (0 + j) \<noteq> []"
    using assms by (simp add: samples_wf_def list_all_length)
  ultimately show ?thesis
    by (simp add: makePredictions_def mapRows_ok)
qed

lemma clamp_spec_min_max: "min 1 (max 0 v) = clamp_spec v 0 1"
  by (simp add: clamp_spec_def min_def max_def)

text \<open>
  Claim C5. On a dataset whose samples each have an output value, \<open>makePredictions\<close>
  returns normally and stores one row per sample, in sample order: row \<open>i\<close> carries input
  \<open>i\<close>, the first output component as \<open>actual\<close>, and
  \<open>clamp(actual + uniformRandom(-0.15, 0.15), 0, 1)\<close> as \<open>predicted\<close>, where the jitter is
  within \<open>[-0.15, 0.15)\<close> for a draw in \<open>[0, 1)\<close> and \<open>predicted\<close> is within \<open>[0, 1]\<close> for
  every draw. While \<open>trainingProgress = 0\<close> the button is disabled and a click leaves the
  state as it is.
\<close>

theorem makePredictions_spec:
  assumes "samples_wf (dataset st)"
  shows "\<exists>rows. makePredictions rnd st = Inr (st\<lparr>predictions := rows\<rparr>) \<and>
           length rows = length (inputs (dataset st)) \<and>
           (\<forall>i<length rows.
              input (rows ! i) = inputs (dataset st) ! i \<and>
              actual (rows ! i) = Some (hd (outputs (dataset st) ! i)) \<and>
              predicted (rows ! i) =
                Some (clamp_spec (hd (outputs (dataset st) ! i) +
                        uniformRandom_spec (- (15 / 100)) (15 / 100) (rnd i)) 0 1) \<and>
              (0 \<le> rnd i \<and> rnd i < 1 \<longrightarrow>
                 - (15 / 100) \<le> uniformRandom_spec (- (15 / 100)) (15 / 100) (rnd i) \<and>
                 uniformRandom_spec (- (15 / 100)) (15 / 100) (rnd i) < 15 / 100) \<and>
              0 \<le> the (predicted (rows ! i)) \<and> the (predicted (rows ! i)) \<le> 1) \<and>
           (trainingProgress st = 0 \<longrightarrow> clickRunPredictions rnd st = Inr st)"
proof -
  let ?rows = "map (\<lambda>j. \<lparr>input = inputs (dataset st) ! j,
                            actual = Some (hd (outputs (dataset st) ! j)),
                            predicted = Some (min 1 (max 0 (hd (outputs (dataset st) ! j) +
                                           (rnd j * (3 / 10) - 15 / 100))))\<rparr>)
                    [0..<length (inputs (dataset st))]"
  have run: "makePredictions rnd st = Inr (st\<lparr>predictions := ?rows\<rparr>)"
    using assms by (rule makePredictions_ok)
  have len: "length ?rows = length (inputs (dataset st))"
    by simp
  have rows: "input (?rows ! i) = inputs (dataset st) ! i \<and>
              actual (?rows ! i) = Some (hd (outputs (dataset st) ! i)) \<and>
              predicted (?rows ! i) =
                Some (clamp_spec (hd (outputs (dataset st) ! i) +
                        uniformRandom_spec (- (15 / 100)) (15 / 100) (rnd i)) 0 1) \<and>
              (0 \<le> rnd i \<and> rnd i < 1 \<longrightarrow>
                 - (15 / 100) \<le> uniformRandom_spec (- (15 / 100)) (15 / 100) (rnd i) \<and>
                 uniformRandom_spec (- (15 / 100)) (15 / 100) (rnd i) < 15 / 100) \<and>
              0 \<le> the (predicted (?rows ! i)) \<and> the (predicted (?rows ! i)) \<le> 1"
    if "i < length ?rows" for i
  proof -
    have i: "i < length (inputs (dataset st))"
      using that by simp
    have u: "0 \<le> rnd i \<and> rnd i < 1 \<longrightarrow>
                 - (15 / 100) \<le> uniformRandom_spec (- (15 / 100)) (15 / 100) (rnd i) \<and>
                 uniformRandom_spec (- (15 / 100)) (15 / 100) (rnd i) < 15 / 100"
      by (simp add: uniformRandom_spec_def)
    have p: "predicted (?rows ! i) =
                Some (clamp_spec (hd (outputs (dataset st) ! i) +
                        uniformRandom_spec (- (15 / 100)) (15 / 100) (rnd i)) 0 1)"
      using i by (simp add: clamp_spec_min_max uniformRandom_spec_def)
    have b: "0 \<le> the (predicted (?rows ! i)) \<and> the (predicted (?rows ! i)) \<le> 1"
      using i by simp
    have ia: "input (?rows ! i) = inputs (dataset st) ! i \<and>
              actual (?rows ! i) = Some (hd (outputs (dataset st) ! i))"
      using i by simp
    from ia p u b show ?thesis
      by blast
  qed
  have gate: "trainingProgress st = 0 \<longrightarrow> clickRunPredictions rnd st = Inr st"
    by (simp add: clickRunPredictions_def runPredictionsDisabled_def)
  from run len rows gate show ?thesis
    by blast
qed

theorem makePredictions_spec_witness:
  "samples_wf (dataset (generateDataset (constantDraws 0) ''xor'' initialState)) \<and>
   (\<exists>rows. makePredictions (constantDraws (1 / 2)) (generateDataset (constantDraws 0) ''xor'' initialState) =
              Inr ((generateDataset (constantDraws 0) ''xor'' initialState)\<lparr>predictions := rows\<rparr>) \<and>
            length rows = 4 \<and>
            predicted (rows ! 1) = Some 1 \<and> predicted (rows ! 0) = Some 0) \<and>
   clickRunPredictions (constantDraws (1 / 2)) (generateDataset (constantDraws 0) ''xor'' initialState) =
     Inr (generateDataset (constantDraws 0) ''xor'' initialState)"
proof -
  let ?st = "generateDataset (constantDraws 0) ''xor'' initialState"
  have wf: "samples_wf (dataset ?st)"
    by (simp add: samples_wf_def generateDataset_def)
  have ds: "inputs (dataset ?st) = [[0, 0], [0, 1], [1, 0], [1, 1]]"
    "outputs (dataset ?st) = [[0], [1], [1], [0]]" "trainingProgress ?st = 0"
    by (simp_all add: generateDataset_def initialState_def)
  from makePredictions_spec [OF wf, of "constantDraws (1 / 2)"]
  obtain rows where r: "makePredictions (constantDraws (1 / 2)) ?st = Inr (?st\<lparr>predictions := rows\<rparr>)"
    "length rows = length (inputs (dataset ?st))"
    "\<forall>i<length rows. predicted (rows ! i) =
         Some (clamp_spec (hd (outputs (dataset ?st) ! i) +
                        uniformRandom_spec (- (15 / 100)) (15 / 100) (constantDraws (1 / 2) i)) 0 1)"
    and g: "trainingProgress ?st = 0 \<longrightarrow> clickRunPredictions (constantDraws (1 / 2)) ?st = Inr ?st"
    by blast
  have l4: "length rows = 4"
    using r(2) ds by simp
  have "predicted (rows ! 1) = Some 1" "predicted (rows ! 0) = Some 0"
    using r(3) l4 ds by (simp_all add: clamp_spec_def uniformRandom_spec_def constantDraws_def)
  with wf r(1) l4 g ds(3) show ?thesis
    by blast
qed

text \<open>
  Claim C10. For a sample whose actual value is at most \<open>-0.15\<close>, the stored prediction is
  exactly 0 whatever the draw in \<open>[0, 1)\<close>; sample 75 of the sine dataset, whose actual
  value is \<open>-1\<close>, is one.
\<close>

theorem low_actual_predicts_zero:
  assumes "samples_wf (dataset st)" and "i < length (inputs (dataset st))"
    and "hd (outputs (dataset st) ! i) \<le> - (15 / 100)"
    and "0 \<le> rnd i \<and> rnd i < 1"
  shows "\<exists>st'. makePredictions rnd st = Inr st' \<and>
           length (predictions st') = length (inputs (dataset st)) \<and>
           actual (predictions st' ! i) = Some (hd (outputs (dataset st) ! i)) \<and>
           predicted (predictions st' ! i) = Some 0"
proof -
  have "hd (outputs (dataset st) ! i) + (rnd i * (3 / 10) - 15 / 100) \<le> 0"
    using assms(3,4) by simp
  then have "min 1 (max 0 (hd (outputs (dataset st) ! i) + (rnd i * (3 / 10) - 15 / 100))) = 0"
    by simp
  then show ?thesis
    using assms(2) by (simp add: makePredictions_ok [OF assms(1)])
qed

theorem low_actual_predicts_zero_witness:
  "samples_wf (dataset (generateDataset (constantDraws 0) ''sine'' initialState)) \<and>
   hd (outputs (dataset (generateDataset (constantDraws 0) ''sine'' initialState)) ! 75) = - 1 \<and>
   (\<exists>st'. makePredictions (constantDraws (9 / 10)) (generateDataset (constantDraws 0) ''sine'' initialState) = Inr st' \<and>
      predicted (predictions st' ! 75) = Some 0)"
proof -
  let ?st = "generateDataset (constantDraws 0) ''sine'' initialState"
  have wf: "samples_wf (dataset ?st)"
    by (simp add: samples_wf_def sine_dataset list_all_iff)
  have i: "75 < length (inputs (dataset ?st))"
    by (simp add: sine_dataset)
  have "sin (3 * pi / 2) = - 1"
    using sin_3over2_pi by simp
  then have out: "hd (outputs (dataset ?st) ! 75) = - 1"
    by (simp add: sine_dataset)
  then have low: "hd (outputs (dataset ?st) ! 75) \<le> - (15 / 100)"
    by simp
  have draw: "0 \<le> constantDraws (9 / 10) 75 \<and> constantDraws (9 / 10) 75 < 1"
    by (simp add: constantDraws_def)
  from low_actual_predicts_zero [of ?st 75 "constantDraws (9 / 10)", OF wf i low draw] wf out
  show ?thesis
    by blast
qed

end
